theory Spec2Isabelle
  imports Complex_Main "HOL-Library.Stream"
begin

section \<open>Python values, errors and arrays\<close>

text \<open>
  The sources are Python 2 (\<^verbatim>\<open>xrange\<close>): \<^verbatim>\<open>/\<close> on two integers is floor division,
  which is \<open>div\<close> on \<open>int\<close>. Floating-point numbers are modelled as exact reals.
  An exception is a value \<open>Inl e\<close> of the result type \<open>pyerror + 'a\<close>.
\<close>

datatype pyerror =
  NotImplementedError | NameError | UnboundLocalError | ValueError
  | IndexError | TypeError | ZeroDivisionError

text \<open>Sequencing: the second statement runs on the value of the first unless it raised.\<close>

definition and_then :: "pyerror + 'a \<Rightarrow> ('a \<Rightarrow> pyerror + 'b) \<Rightarrow> pyerror + 'b" where
  "and_then m f = (case m of Inl e \<Rightarrow> Inl e | Inr v \<Rightarrow> f v)"

text \<open>A \<^verbatim>\<open>for\<close> loop over a sequence, threading the state and stopping at the first exception.\<close>

fun for_loop :: "'i list \<Rightarrow> ('i \<Rightarrow> 's \<Rightarrow> pyerror + 's) \<Rightarrow> 's \<Rightarrow> pyerror + 's" where
  "for_loop [] body s = Inr s"
| "for_loop (k # ks) body s =
     (case body k s of Inl e \<Rightarrow> Inl e | Inr s' \<Rightarrow> for_loop ks body s')"

text \<open>
  A numpy array of booleans: its shape and its cells, addressed by a full index (one
  position per axis). Every array built below is \<open>False\<close> outside its shape.
\<close>

record ndarray =
  shape :: "nat list"
  elems :: "nat list \<Rightarrow> bool"

definition in_bounds :: "nat list \<Rightarrow> nat list \<Rightarrow> bool" where
  "in_bounds sh idx = list_all2 (\<lambda>i n. i < n) idx sh"

definition wf_array :: "ndarray \<Rightarrow> bool" where
  "wf_array a = (\<forall>idx. elems a idx \<longrightarrow> in_bounds (shape a) idx)"

text \<open>A list of exactly five (three) entries, as a tuple: a shape or a full index.\<close>

fun dest5 :: "'a list \<Rightarrow> ('a \<times> 'a \<times> 'a \<times> 'a \<times> 'a) option" where
  "dest5 [a, b, c, d, e] = Some (a, b, c, d, e)"
| "dest5 _ = None"

fun dest3 :: "'a list \<Rightarrow> ('a \<times> 'a \<times> 'a) option" where
  "dest3 [a, b, c] = Some (a, b, c)"
| "dest3 _ = None"

text \<open>\<^verbatim>\<open>numpy.zeros(shape)\<close>: a negative dimension raises ValueError.\<close>

definition np_zeros :: "int list \<Rightarrow> pyerror + ndarray" where
  "np_zeros dims =
     (if list_ex (\<lambda>d. d < 0) dims then Inl ValueError
      else Inr \<lparr>shape = map nat dims, elems = (\<lambda>_. False)\<rparr>)"

text \<open>An integer subscript on an axis of length \<open>n\<close>: negative values count from the end.\<close>

definition py_index :: "nat \<Rightarrow> int \<Rightarrow> pyerror + nat" where
  "py_index n i =
     (let j = (if i < 0 then i + int n else i)
      in if 0 \<le> j \<and> j < int n then Inr (nat j) else Inl IndexError)"

fun py_indices :: "nat list \<Rightarrow> int list \<Rightarrow> pyerror + nat list" where
  "py_indices [] [] = Inr []"
| "py_indices (n # ns) (i # is) =
     (case py_index n i of Inl e \<Rightarrow> Inl e
      | Inr j \<Rightarrow> (case py_indices ns is of Inl e \<Rightarrow> Inl e | Inr js \<Rightarrow> Inr (j # js)))"
| "py_indices _ _ = Inl IndexError"

text \<open>
  \<^verbatim>\<open>a[i0, ..., ik]\<close> and \<^verbatim>\<open>a[i0, ..., ik] = v\<close> with one integer per axis
  (every array of the dataset module is five-dimensional and is addressed so).
\<close>

definition getitem :: "ndarray \<Rightarrow> int list \<Rightarrow> pyerror + bool" where
  "getitem a idx =
     (case py_indices (shape a) idx of Inl e \<Rightarrow> Inl e | Inr js \<Rightarrow> Inr (elems a js))"

definition setitem :: "ndarray \<Rightarrow> int list \<Rightarrow> bool \<Rightarrow> pyerror + ndarray" where
  "setitem a idx v =
     (case py_indices (shape a) idx of Inl e \<Rightarrow> Inl e
      | Inr js \<Rightarrow> Inr (a\<lparr>elems := (elems a)(js := v)\<rparr>))"

text \<open>\<^verbatim>\<open>t[i]\<close> on a tuple or a one-dimensional array.\<close>

definition tuple_getitem :: "'a list \<Rightarrow> int \<Rightarrow> pyerror + 'a" where
  "tuple_getitem xs i =
     (case py_index (length xs) i of Inl e \<Rightarrow> Inl e | Inr j \<Rightarrow> Inr (xs ! j))"

text \<open>
  The bounds \<^verbatim>\<open>lo:hi\<close> of a slice on an axis of length \<open>n\<close> (step 1): a missing bound
  is the end of the axis, a negative one counts from the end, and both are clipped.
\<close>

definition slice_bound :: "nat \<Rightarrow> int \<Rightarrow> nat" where
  "slice_bound n k = nat (if k < 0 then max (k + int n) 0 else min k (int n))"

definition slice_range :: "nat \<Rightarrow> int option \<Rightarrow> int option \<Rightarrow> nat \<times> nat" where
  "slice_range n lo hi =
     ((case lo of None \<Rightarrow> 0 | Some k \<Rightarrow> slice_bound n k),
      (case hi of None \<Rightarrow> n | Some k \<Rightarrow> slice_bound n k))"

section \<open>datasets/geometric\_3d\_dataset.py\<close>

definition SPHERE_TYPE :: int where "SPHERE_TYPE = 0"
definition DIAMOND_TYPE :: int where "DIAMOND_TYPE = 1"
definition CUBE_TYPE :: int where "CUBE_TYPE = 2"

definition CLASSIFICATION_TASK :: int where "CLASSIFICATION_TASK = 0"
definition KINECT_COMPLETION_TASK :: int where "KINECT_COMPLETION_TASK = 1"
definition HALF_COMPLETION_TASK :: int where "HALF_COMPLETION_TASK = 2"

record config =
  num_labels :: int
  batch_size :: int
  patch_size :: int
  task :: int
  centered :: bool

text \<open>\<^verbatim>\<open>Geometric3DDataset.__init__\<close>\<close>

definition Geometric3DDataset_init :: "int \<Rightarrow> int \<Rightarrow> int \<Rightarrow> bool \<Rightarrow> pyerror + config" where
  "Geometric3DDataset_init bs ps t c =
     (if ps \<le> 7 then Inl NotImplementedError
      else Inr \<lparr>num_labels = 3, batch_size = bs, patch_size = ps, task = t, centered = c\<rparr>)"

text \<open>
  The random generator is a stream of draws of \<^verbatim>\<open>numpy.random.rand\<close>, each in \<open>[0, 1)\<close>;
  a call consumes the head of the stream.
\<close>

type_synonym rng = "real stream"

definition valid_rng :: "rng \<Rightarrow> bool" where
  "valid_rng s = (\<forall>k. 0 \<le> s !! k \<and> s !! k < 1)"

text \<open>The centre chosen at the top of \<^verbatim>\<open>__generate_solid_figures\<close>, as \<open>(x0, y0, z0)\<close>.\<close>

definition pick_center :: "config \<Rightarrow> rng \<Rightarrow> (real \<times> real \<times> real) \<times> rng" where
  "pick_center cfg s =
     (if centered cfg then
        (let m = real_of_int ((patch_size cfg - 1) div 2) in ((m, m, m), s))
      else if task cfg = HALF_COMPLETION_TASK then
        (let x0 = real_of_int ((patch_size cfg - 1) div 2);
             y0 = shd s * real_of_int (patch_size cfg - 1);
             z0 = shd (stl s) * real_of_int (patch_size cfg - 1)
         in ((x0, y0, z0), stl (stl s)))
      else
        (let x0 = shd s * real_of_int (patch_size cfg - 1);
             y0 = shd (stl s) * real_of_int (patch_size cfg - 1);
             z0 = shd (stl (stl s)) * real_of_int (patch_size cfg - 1)
         in ((x0, y0, z0), stl (stl (stl s)))))"

text \<open>
  \<^verbatim>\<open>solid_figures[i, z_min:z_max+1, 0, x_min:x_max+1, y_min:y_max+1] = 1\<close>:
  two integer subscripts and three slices on a five-dimensional array.
\<close>

definition fill_box ::
  "ndarray \<Rightarrow> int \<Rightarrow> int \<times> int \<Rightarrow> int \<Rightarrow> int \<times> int \<Rightarrow> int \<times> int \<Rightarrow> pyerror + ndarray" where
  "fill_box a i zs c xs ys =
     (case dest5 (shape a) of
        Some (B, Z, C, X, Y) \<Rightarrow>
          (case py_index B i of Inl e \<Rightarrow> Inl e
           | Inr b \<Rightarrow>
             (case py_index C c of Inl e \<Rightarrow> Inl e
              | Inr ch \<Rightarrow>
                (let zr = slice_range Z (Some (fst zs)) (Some (snd zs));
                     xr = slice_range X (Some (fst xs)) (Some (snd xs));
                     yr = slice_range Y (Some (fst ys)) (Some (snd ys))
                 in Inr (a\<lparr>elems := (\<lambda>idx.
                      (case dest5 idx of
                         Some (b', z, c', x, y) \<Rightarrow>
                           b' = b \<and> c' = ch \<and> fst zr \<le> z \<and> z < snd zr
                           \<and> fst xr \<le> x \<and> x < snd xr \<and> fst yr \<le> y \<and> y < snd yr
                       | None \<Rightarrow> False) \<or> elems a idx)\<rparr>))))
      | None \<Rightarrow> Inl IndexError)"

text \<open>The body of the loop over the samples of \<^verbatim>\<open>__generate_solid_figures\<close>.\<close>

definition solid_figure ::
  "config \<Rightarrow> int list \<Rightarrow> real \<times> real \<times> real \<Rightarrow> int \<Rightarrow> ndarray \<times> rng \<Rightarrow> pyerror + (ndarray \<times> rng)" where
  "solid_figure cfg geometry_types center i st =
     (case center of (x0, y0, z0) \<Rightarrow>
      case st of (solid_figures, s) \<Rightarrow>
      let radius = real_of_int (patch_size cfg div 2 - 3) * shd s + 3;
          x_min = max \<lceil>x0 - radius\<rceil> 0;
          y_min = max \<lceil>y0 - radius\<rceil> 0;
          z_min = max \<lceil>z0 - radius\<rceil> 0;
          x_max = min \<lfloor>x0 + radius\<rfloor> (patch_size cfg - 1);
          y_max = min \<lfloor>y0 + radius\<rfloor> (patch_size cfg - 1);
          z_max = min \<lfloor>z0 + radius\<rfloor> (patch_size cfg - 1)
      in
      case tuple_getitem geometry_types i of Inl e \<Rightarrow> Inl e
      | Inr gt \<Rightarrow>
        if gt = SPHERE_TYPE then
          (let radius_squared = radius ^ 2 in
           case for_loop [z_min..z_max] (\<lambda>z.
                  for_loop [x_min..x_max] (\<lambda>x.
                    for_loop [y_min..y_max] (\<lambda>y g.
                      if (real_of_int x - x0) ^ 2 + (real_of_int y - y0) ^ 2
                           + (real_of_int z - z0) ^ 2 \<le> radius_squared
                      then setitem g [i, z, 0, x, y] True else Inr g))) solid_figures
           of Inl e \<Rightarrow> Inl e | Inr g \<Rightarrow> Inr (g, stl s))
        else if gt = DIAMOND_TYPE then
          (case for_loop [z_min..z_max] (\<lambda>z.
                  for_loop [x_min..x_max] (\<lambda>x.
                    for_loop [y_min..y_max] (\<lambda>y g.
                      if \<bar>real_of_int x - x0\<bar> + \<bar>real_of_int y - y0\<bar>
                           + \<bar>real_of_int z - z0\<bar> \<le> radius
                      then setitem g [i, z, 0, x, y] True else Inr g))) solid_figures
           of Inl e \<Rightarrow> Inl e | Inr g \<Rightarrow> Inr (g, stl s))
        else if gt = CUBE_TYPE then
          (case fill_box solid_figures i (z_min, z_max + 1) 0 (x_min, x_max + 1)
                  (y_min, y_max + 1)
           of Inl e \<Rightarrow> Inl e | Inr g \<Rightarrow> Inr (g, stl s))
        else Inl NotImplementedError)"

text \<open>\<^verbatim>\<open>Geometric3DDataset.__generate_solid_figures\<close>\<close>

definition generate_solid_figures :: "config \<Rightarrow> int list \<Rightarrow> rng \<Rightarrow> pyerror + (ndarray \<times> rng)" where
  "generate_solid_figures cfg geometry_types s =
     (case pick_center cfg s of (center, s1) \<Rightarrow>
      case np_zeros [batch_size cfg, patch_size cfg, 1, patch_size cfg, patch_size cfg] of
        Inl e \<Rightarrow> Inl e
      | Inr solid_figures \<Rightarrow>
          for_loop [0..batch_size cfg - 1] (solid_figure cfg geometry_types center)
            (solid_figures, s1))"

text \<open>
  The names bound at module level in \<^verbatim>\<open>geometric_3d_dataset.py\<close>: its two imports and
  its class. Reading any other name that is not a builtin raises NameError.
\<close>

definition module_globals :: "string list" where
  "module_globals = [''np'', ''math'', ''Geometric3DDataset'']"

definition global_name :: "string list \<Rightarrow> string \<Rightarrow> pyerror + unit" where
  "global_name globals n = (if n \<in> set globals then Inr () else Inl NameError)"

text \<open>The innermost loop of \<^verbatim>\<open>__kinect_scan\<close>, over \<open>z\<close>, with its \<^verbatim>\<open>break\<close>.\<close>

fun scan_column :: "ndarray \<Rightarrow> int \<Rightarrow> int \<Rightarrow> int \<Rightarrow> int list \<Rightarrow> ndarray \<Rightarrow> pyerror + ndarray" where
  "scan_column solid_figures i x y [] kinect_result = Inr kinect_result"
| "scan_column solid_figures i x y (z # zs) kinect_result =
     (case getitem solid_figures [i, z, 0, x, y] of Inl e \<Rightarrow> Inl e
      | Inr v \<Rightarrow>
          if v then setitem kinect_result [i, z, 0, x, y] True
          else scan_column solid_figures i x y zs kinect_result)"

text \<open>
  \<^verbatim>\<open>Geometric3DDataset.__kinect_scan\<close>, in a module whose global names are \<open>globals\<close>:
  the loop over \<open>(x, y)\<close> reads the global \<^verbatim>\<open>itertools\<close> on every sample.
\<close>

definition kinect_scan_in :: "string list \<Rightarrow> config \<Rightarrow> ndarray \<Rightarrow> pyerror + ndarray" where
  "kinect_scan_in globals cfg solid_figures =
     for_loop [0..batch_size cfg - 1] (\<lambda>i kinect_result.
        case global_name globals ''itertools'' of Inl e \<Rightarrow> Inl e
        | Inr _ \<Rightarrow>
            for_loop (List.product [0..patch_size cfg - 1] [0..patch_size cfg - 1])
              (\<lambda>(x, y). scan_column solid_figures i x y [0..patch_size cfg - 1])
              kinect_result)
       \<lparr>shape = shape solid_figures, elems = (\<lambda>_. False)\<rparr>"

definition kinect_scan :: "config \<Rightarrow> ndarray \<Rightarrow> pyerror + ndarray" where
  "kinect_scan = kinect_scan_in module_globals"

text \<open>\<^verbatim>\<open>Geometric3DDataset.__one_hot\<close>\<close>

definition one_hot :: "config \<Rightarrow> int list \<Rightarrow> pyerror + ndarray" where
  "one_hot cfg labels =
     (case np_zeros [batch_size cfg, num_labels cfg] of Inl e \<Rightarrow> Inl e
      | Inr one_hot_matrix \<Rightarrow>
          for_loop (zip [0..<length labels] labels)
            (\<lambda>(i, label) m. setitem m [int i, label] True) one_hot_matrix)"

text \<open>
  \<^verbatim>\<open>numpy.random.randint(low, high, n)\<close>: \<open>n\<close> draws, each scaled from a draw in
  \<open>[0, 1)\<close>; a negative size raises ValueError.
\<close>

definition randint :: "int \<Rightarrow> int \<Rightarrow> int \<Rightarrow> rng \<Rightarrow> pyerror + (int list \<times> rng)" where
  "randint low high n s =
     (if n < 0 \<or> high \<le> low then Inl ValueError
      else Inr (map (\<lambda>u. low + \<lfloor>u * real_of_int (high - low)\<rfloor>) (stake (nat n) s),
                sdrop (nat n) s))"

text \<open>\<^verbatim>\<open>a[:, :, :, lo:hi, :]\<close> on a five-dimensional array.\<close>

definition slice_axis3 :: "ndarray \<Rightarrow> int option \<Rightarrow> int option \<Rightarrow> pyerror + ndarray" where
  "slice_axis3 a lo hi =
     (case dest5 (shape a) of
        Some (B, Z, C, X, Y) \<Rightarrow>
          (let r = slice_range X lo hi; sh = [B, Z, C, snd r - fst r, Y]
           in Inr \<lparr>shape = sh,
                   elems = (\<lambda>idx. case dest5 idx of
                       Some (b, z, c, x, y) \<Rightarrow>
                         in_bounds sh idx \<and> elems a [b, z, c, x + fst r, y]
                     | None \<Rightarrow> False)\<rparr>)
      | None \<Rightarrow> Inl IndexError)"

text \<open>
  \<^verbatim>\<open>Geometric3DDataset.next_batch\<close>. A task that is none of the three leaves
  \<^verbatim>\<open>data\<close> unbound, and the \<^verbatim>\<open>return\<close> raises UnboundLocalError.
\<close>

definition next_batch :: "config \<Rightarrow> rng \<Rightarrow> pyerror + ((ndarray \<times> ndarray) \<times> rng)" where
  "next_batch cfg s =
     (if task cfg = CLASSIFICATION_TASK then
        (case randint 0 (num_labels cfg) (batch_size cfg) s of Inl e \<Rightarrow> Inl e
         | Inr (geometry_types, s1) \<Rightarrow>
           (case one_hot cfg geometry_types of Inl e \<Rightarrow> Inl e
            | Inr labels \<Rightarrow>
              (case generate_solid_figures cfg geometry_types s1 of Inl e \<Rightarrow> Inl e
               | Inr (data, s2) \<Rightarrow> Inr ((data, labels), s2))))
      else if task cfg = KINECT_COMPLETION_TASK then
        (case generate_solid_figures cfg
                (replicate (nat (batch_size cfg)) SPHERE_TYPE) s of Inl e \<Rightarrow> Inl e
         | Inr (labels, s1) \<Rightarrow>
           (case kinect_scan cfg labels of Inl e \<Rightarrow> Inl e
            | Inr data \<Rightarrow> Inr ((data, labels), s1)))
      else if task cfg = HALF_COMPLETION_TASK then
        (case generate_solid_figures cfg
                (replicate (nat (batch_size cfg)) SPHERE_TYPE) s of Inl e \<Rightarrow> Inl e
         | Inr (temp, s1) \<Rightarrow>
           (case slice_axis3 temp None (Some (patch_size cfg div 2)) of Inl e \<Rightarrow> Inl e
            | Inr data \<Rightarrow>
              (case slice_axis3 temp (Some (patch_size cfg div 2)) None of Inl e \<Rightarrow> Inl e
               | Inr labels \<Rightarrow> Inr ((data, labels), s1))))
      else Inl UnboundLocalError)"

section \<open>layers/layer\_utils.py\<close>

text \<open>
  \<^verbatim>\<open>a.reshape(dims)\<close> keeps the cells in row-major order. The position of a full index
  in that order, and the index at a position:
\<close>

definition ravel_index :: "nat list \<Rightarrow> nat list \<Rightarrow> nat" where
  "ravel_index sh idx = foldl (\<lambda>acc (n, i). acc * n + i) 0 (zip sh idx)"

fun unravel_rev :: "nat list \<Rightarrow> nat \<Rightarrow> nat list" where
  "unravel_rev [] k = []"
| "unravel_rev (n # ns) k = (k mod n) # unravel_rev ns (k div n)"

definition unravel_index :: "nat list \<Rightarrow> nat \<Rightarrow> nat list" where
  "unravel_index sh k = rev (unravel_rev (rev sh) k)"

text \<open>
  The new shape of a reshape: one dimension may be \<open>-1\<close> and is then inferred from the
  size; any other negative dimension, a second \<open>-1\<close>, or a new shape of another size
  raises ValueError.
\<close>

definition reshape_dims :: "nat \<Rightarrow> int list \<Rightarrow> pyerror + nat list" where
  "reshape_dims sz dims =
     (if list_ex (\<lambda>d. d < -1) dims \<or> 1 < length (filter (\<lambda>d. d = -1) dims) then Inl ValueError
      else if -1 \<in> set dims then
        (let known = prod_list (map nat (filter (\<lambda>d. d \<noteq> -1) dims))
         in if known = 0 \<or> sz mod known \<noteq> 0 then Inl ValueError
            else Inr (map (\<lambda>d. if d = -1 then sz div known else nat d) dims))
      else if prod_list (map nat dims) \<noteq> sz then Inl ValueError
      else Inr (map nat dims))"

definition np_reshape :: "ndarray \<Rightarrow> int list \<Rightarrow> pyerror + ndarray" where
  "np_reshape a dims =
     (case reshape_dims (prod_list (shape a)) dims of Inl e \<Rightarrow> Inl e
      | Inr sh \<Rightarrow>
          Inr \<lparr>shape = sh,
               elems = (\<lambda>idx. in_bounds sh idx
                          \<and> elems a (unravel_index (shape a) (ravel_index sh idx)))\<rparr>)"

text \<open>
  \<^verbatim>\<open>a.max(axis=axes)\<close> on booleans. \<open>weave flags kept red\<close> rebuilds a full index of
  \<open>a\<close> from an index of the result and the positions on the reduced axes. Reducing
  over an axis of length 0 raises ValueError; so does an axis that does not exist.
\<close>

fun weave :: "bool list \<Rightarrow> nat list \<Rightarrow> nat list \<Rightarrow> nat list" where
  "weave [] ks rs = []"
| "weave (True # fs) ks (r # rs) = r # weave fs ks rs"
| "weave (False # fs) (k # ks) rs = k # weave fs ks rs"
| "weave _ _ _ = []"

definition np_max :: "ndarray \<Rightarrow> nat list \<Rightarrow> pyerror + ndarray" where
  "np_max a axes =
     (let sh = shape a;
          flags = map (\<lambda>k. k \<in> set axes) [0..<length sh];
          red = map snd (filter fst (zip flags sh));
          kept = map snd (filter (\<lambda>p. \<not> fst p) (zip flags sh))
      in if list_ex (\<lambda>k. length sh \<le> k) axes \<or> \<not> distinct axes then Inl ValueError
         else if 0 \<in> set red then Inl ValueError
         else Inr \<lparr>shape = kept,
                   elems = (\<lambda>idx. in_bounds kept idx
                      \<and> list_ex (\<lambda>r. elems a (weave flags idx r))
                           (product_lists (map (\<lambda>n. [0..<n]) red)))\<rparr>)"

text \<open>Python 2 \<^verbatim>\<open>a / b\<close> on integers.\<close>

definition py_div :: "int \<Rightarrow> int \<Rightarrow> pyerror + int" where
  "py_div a b = (if b = 0 then Inl ZeroDivisionError else Inr (a div b))"

text \<open>\<^verbatim>\<open>downscale_3d\<close>: the arguments of the reshape are evaluated from left to right.\<close>

definition downscale_3d :: "ndarray \<Rightarrow> int \<Rightarrow> pyerror + ndarray" where
  "downscale_3d the_5d_input downscale_factor =
     (let array_shape = map int (shape the_5d_input) in
      and_then (tuple_getitem array_shape 0) (\<lambda>d0.
      and_then (tuple_getitem array_shape 1) (\<lambda>s1.
      and_then (py_div s1 downscale_factor) (\<lambda>d1.
      and_then (tuple_getitem array_shape 2) (\<lambda>d3.
      and_then (tuple_getitem array_shape 3) (\<lambda>s3.
      and_then (py_div s3 downscale_factor) (\<lambda>d4.
      and_then (tuple_getitem array_shape 4) (\<lambda>s4.
      and_then (py_div s4 downscale_factor) (\<lambda>d6.
      and_then (np_reshape the_5d_input
             [d0, d1, downscale_factor, d3, d4, downscale_factor, d6, downscale_factor])
        (\<lambda>r. np_max r [2, 5, 7]))))))))))"

text \<open>The three-dimensional view \<^verbatim>\<open>a[n, :, c, :, :]\<close> of a five-dimensional array.\<close>

definition sample_view :: "ndarray \<Rightarrow> int \<Rightarrow> int \<Rightarrow> pyerror + ndarray" where
  "sample_view a n c =
     (case dest5 (shape a) of
        Some (B, Z, C, X, Y) \<Rightarrow>
          (case py_index B n of Inl e \<Rightarrow> Inl e
           | Inr b \<Rightarrow>
             (case py_index C c of Inl e \<Rightarrow> Inl e
              | Inr ch \<Rightarrow>
                  Inr \<lparr>shape = [Z, X, Y],
                       elems = (\<lambda>idx. case dest3 idx of
                           Some (z, x, y) \<Rightarrow> elems a [b, z, ch, x, y] | None \<Rightarrow> False)\<rparr>))
      | None \<Rightarrow> Inl IndexError)"

text \<open>
  \<^verbatim>\<open>numpy.nonzero(a)\<close>: a tuple with one array per axis of \<open>a\<close>, holding the positions
  of the occupied cells on that axis, the cells taken in row-major order.
\<close>

definition np_nonzero :: "ndarray \<Rightarrow> nat list list" where
  "np_nonzero a =
     (let cells = filter (elems a) (product_lists (map (\<lambda>n. [0..<n]) (shape a)))
      in map (\<lambda>k. map (\<lambda>idx. idx ! k) cells) [0..<length (shape a)])"

text \<open>
  \<^verbatim>\<open>t[[i, j, k]]\<close> on a tuple: a tuple takes an integer (or a slice) as its subscript,
  and a list raises TypeError.
\<close>

definition tuple_getitem_list :: "'a list \<Rightarrow> int list \<Rightarrow> pyerror + 'a list" where
  "tuple_getitem_list xs js = Inl TypeError"

text \<open>The product of a \<open>3 \<times> 3\<close> matrix and a matrix of three rows.\<close>

definition mat_mul :: "real list list \<Rightarrow> nat list list \<Rightarrow> real list list" where
  "mat_mul m cols =
     map (\<lambda>row. map (\<lambda>j. sum_list (map2 (\<lambda>c col. c * real (col ! j)) row cols))
                   [0..<(case cols of [] \<Rightarrow> 0 | c # _ \<Rightarrow> length c)]) m"

text \<open>
  The body of the loop of \<^verbatim>\<open>rotate_3d\<close> over the samples. The statements after the
  subscript of \<^verbatim>\<open>numpy.nonzero\<close>'s tuple: a coordinate that passes the bounds test is
  used as a subscript, truncated to an integer.
\<close>

definition rotate_sample ::
  "ndarray \<Rightarrow> real list list \<Rightarrow> int \<Rightarrow> ndarray \<Rightarrow> pyerror + ndarray" where
  "rotate_sample the_5d_input rotation_matrix n rotated_output =
     (case sample_view the_5d_input n 0 of Inl e \<Rightarrow> Inl e
      | Inr view \<Rightarrow>
        (case tuple_getitem_list (np_nonzero view) [3, 4, 1] of Inl e \<Rightarrow> Inl e
         | Inr nonzeros \<Rightarrow>
           (let rotated_nonzeros = mat_mul rotation_matrix nonzeros;
                array_shape = map int (shape the_5d_input)
            in for_loop (transpose rotated_nonzeros) (\<lambda>p out.
                 case dest3 p of
                   Some (x, y, z) \<Rightarrow>
                     if 0 \<le> x \<and> x < real_of_int (array_shape ! 3)
                        \<and> 0 \<le> y \<and> y < real_of_int (array_shape ! 4)
                        \<and> 0 \<le> z \<and> z < real_of_int (array_shape ! 1)
                     then setitem out [n, \<lfloor>z\<rfloor>, 0, \<lfloor>x\<rfloor>, \<lfloor>y\<rfloor>] True
                     else Inr out
                 | None \<Rightarrow> Inl ValueError) rotated_output)))"

text \<open>\<^verbatim>\<open>rotate_3d\<close>\<close>

definition rotate_3d :: "ndarray \<Rightarrow> real list list \<Rightarrow> pyerror + ndarray" where
  "rotate_3d the_5d_input rotation_matrix =
     (let array_shape = map int (shape the_5d_input) in
      case tuple_getitem array_shape 0 of Inl e \<Rightarrow> Inl e
      | Inr d0 \<Rightarrow>
          for_loop [0..d0 - 1] (rotate_sample the_5d_input rotation_matrix)
            \<lparr>shape = shape the_5d_input, elems = (\<lambda>_. False)\<rparr>)"

text \<open>The builtins \<^verbatim>\<open>min\<close> and \<^verbatim>\<open>max\<close> on a sequence: ValueError when it is empty.\<close>

definition py_min :: "nat list \<Rightarrow> pyerror + nat" where
  "py_min xs = (case xs of [] \<Rightarrow> Inl ValueError | x # r \<Rightarrow> Inr (fold min r x))"

definition py_max :: "nat list \<Rightarrow> pyerror + nat" where
  "py_max xs = (case xs of [] \<Rightarrow> Inl ValueError | x # r \<Rightarrow> Inr (fold max r x))"

text \<open>\<^verbatim>\<open>(min(t[k]) + max(t[k])) // 2\<close> on the tuple returned by \<^verbatim>\<open>numpy.nonzero\<close>.\<close>

definition mid_of :: "nat list list \<Rightarrow> int \<Rightarrow> pyerror + int" where
  "mid_of nonzeros k =
     and_then (tuple_getitem nonzeros k) (\<lambda>lo_axis.
     and_then (py_min lo_axis) (\<lambda>lo.
     and_then (tuple_getitem nonzeros k) (\<lambda>hi_axis.
     and_then (py_max hi_axis) (\<lambda>hi.
       Inr ((int lo + int hi) div 2)))))"

text \<open>\<^verbatim>\<open>numpy.roll(a, shft, axis)\<close>: a cyclic shift along one axis.\<close>

definition np_roll :: "ndarray \<Rightarrow> int \<Rightarrow> nat \<Rightarrow> pyerror + ndarray" where
  "np_roll a shft axis =
     (if length (shape a) \<le> axis then Inl ValueError
      else Inr (a\<lparr>elems := (\<lambda>idx. in_bounds (shape a) idx
                  \<and> elems a (idx[axis := nat ((int (idx ! axis) - shft)
                                               mod int (shape a ! axis))]))\<rparr>))"

text \<open>\<^verbatim>\<open>out[n, :, c, :, :] = temp\<close> for a three-dimensional \<open>temp\<close> of the view's shape.\<close>

definition set_sample :: "ndarray \<Rightarrow> int \<Rightarrow> int \<Rightarrow> ndarray \<Rightarrow> pyerror + ndarray" where
  "set_sample out n c temp =
     (case dest5 (shape out) of
        Some (B, Z, C, X, Y) \<Rightarrow>
          (case py_index B n of Inl e \<Rightarrow> Inl e
           | Inr b \<Rightarrow>
             (case py_index C c of Inl e \<Rightarrow> Inl e
              | Inr ch \<Rightarrow>
                  if shape temp \<noteq> [Z, X, Y] then Inl ValueError
                  else Inr (out\<lparr>elems := (\<lambda>idx. case dest5 idx of
                      Some (b', z, c', x, y) \<Rightarrow>
                        if b' = b \<and> c' = ch then elems temp [z, x, y] else elems out idx
                    | None \<Rightarrow> elems out idx)\<rparr>)))
      | None \<Rightarrow> Inl IndexError)"

text \<open>The body of the loop of \<^verbatim>\<open>bounding_box_re_center_3d\<close> over the samples.\<close>

definition re_center_sample :: "ndarray \<Rightarrow> int \<Rightarrow> int \<Rightarrow> ndarray \<Rightarrow> pyerror + ndarray" where
  "re_center_sample the_5d_input mid n the_5d_output =
     and_then (sample_view the_5d_input n 0) (\<lambda>view.
     let nonzeros = np_nonzero view in
     and_then (mid_of nonzeros 1) (\<lambda>midZ.
     and_then (mid_of nonzeros 3) (\<lambda>midX.
     and_then (mid_of nonzeros 4) (\<lambda>midY.
     and_then (np_roll view (mid - midZ) 0) (\<lambda>r0.
     and_then (np_roll r0 (mid - midX) 1) (\<lambda>r1.
     and_then (np_roll r1 (mid - midY) 2) (\<lambda>temp.
       set_sample the_5d_output n 0 temp)))))))"

text \<open>\<^verbatim>\<open>bounding_box_re_center_3d\<close>\<close>

definition bounding_box_re_center_3d :: "ndarray \<Rightarrow> pyerror + ndarray" where
  "bounding_box_re_center_3d the_5d_input =
     (let array_shape = map int (shape the_5d_input) in
      case tuple_getitem array_shape 1 of Inl e \<Rightarrow> Inl e
      | Inr s1 \<Rightarrow>
        (let mid = (s1 - 1) div 2 in
         case tuple_getitem array_shape 0 of Inl e \<Rightarrow> Inl e
         | Inr d0 \<Rightarrow>
             for_loop [0..d0 - 1] (re_center_sample the_5d_input mid)
               \<lparr>shape = shape the_5d_input, elems = (\<lambda>_. False)\<rparr>))"

text \<open>
  \<^verbatim>\<open>numpy.concatenate((a, b), axis=3)\<close> on two five-dimensional arrays, the operation
  the half-completion property is stated with: the shapes must agree off axis 3.
\<close>

definition concatenate_axis3 :: "ndarray \<Rightarrow> ndarray \<Rightarrow> pyerror + ndarray" where
  "concatenate_axis3 a b =
     (case dest5 (shape a) of
        Some (B, Z, C, X, Y) \<Rightarrow>
          (case dest5 (shape b) of
             Some (B', Z', C', X', Y') \<Rightarrow>
               if B = B' \<and> Z = Z' \<and> C = C' \<and> Y = Y' then
                 Inr \<lparr>shape = [B, Z, C, X + X', Y],
                      elems = (\<lambda>idx. case dest5 idx of
                          Some (i, z, c, x, y) \<Rightarrow>
                            if x < X then elems a idx else elems b [i, z, c, x - X, y]
                        | None \<Rightarrow> False)\<rparr>
               else Inl ValueError
           | None \<Rightarrow> Inl ValueError)
      | None \<Rightarrow> Inl ValueError)"

section \<open>Basic facts\<close>

lemma and_then_simps [simp]:
  "and_then (Inl e) f = Inl e" "and_then (Inr v) f = f v"
  by (simp_all add: and_then_def)

lemma upto_first: "i \<le> j \<Longrightarrow> [i..j] = i # [i + 1..j]"
  by (simp add: upto_rec1)

section \<open>Construction and task dispatch\<close>

text \<open>
  C7 (as the code has it): construction fails exactly when \<open>patch_size \<le> 7\<close>, with
  NotImplementedError; for every other argument tuple, whatever the batch size, it
  succeeds and the stored fields are the arguments, with \<open>num_labels = 3\<close>.
\<close>

theorem init_fails_iff_small_patch:
  "(ps \<le> 7 \<longrightarrow> Geometric3DDataset_init bs ps t c = Inl NotImplementedError) \<and>
   (7 < ps \<longrightarrow> (\<exists>cfg. Geometric3DDataset_init bs ps t c = Inr cfg \<and> batch_size cfg = bs
       \<and> patch_size cfg = ps \<and> task cfg = t \<and> centered cfg = c \<and> num_labels cfg = 3))"
  by (simp add: Geometric3DDataset_init_def)

theorem init_fails_iff_small_patch_witness:
  "((7::int) \<le> 7 \<and> Geometric3DDataset_init (-5) 7 0 True = Inl NotImplementedError) \<and>
   ((7::int) < 32 \<and> (\<exists>cfg. Geometric3DDataset_init (-5) 32 1 False = Inr cfg
       \<and> batch_size cfg = -5 \<and> patch_size cfg = 32 \<and> task cfg = 1 \<and> centered cfg = False
       \<and> num_labels cfg = 3))"
  using init_fails_iff_small_patch [of 7 "-5" 0 True]
    init_fails_iff_small_patch [of 32 "-5" 1 False]
  by simp

text \<open>
  The claim C7 as written asks for a failure on a non-positive batch size: with
  \<open>batch_size = 0\<close> and \<open>patch_size = 8\<close> the constructor returns a configuration.
\<close>

theorem init_batch_size_counterexample:
  "(0::int) \<le> 0 \<and> Geometric3DDataset_init 0 8 0 True
     = Inr \<lparr>num_labels = 3, batch_size = 0, patch_size = 8, task = 0, centered = True\<rparr>"
  by (simp add: Geometric3DDataset_init_def)

text \<open>
  C9: when the task is none of CLASSIFICATION (0), KINECT\_COMPLETION (1) and
  HALF\_COMPLETION (2), \<^verbatim>\<open>next_batch\<close> returns no pair: it raises (UnboundLocalError),
  for every configuration and every state of the random generator.
\<close>

theorem next_batch_unknown_task_fails:
  assumes "task cfg \<noteq> CLASSIFICATION_TASK" and "task cfg \<noteq> KINECT_COMPLETION_TASK"
    and "task cfg \<noteq> HALF_COMPLETION_TASK"
  shows "next_batch cfg s = Inl UnboundLocalError"
  using assms by (simp add: next_batch_def)

theorem next_batch_unknown_task_fails_witness:
  "next_batch \<lparr>num_labels = 3, batch_size = 20, patch_size = 32, task = 3, centered = True\<rparr>
     (sconst 0) = Inl UnboundLocalError"
  using next_batch_unknown_task_fails
    [of "\<lparr>num_labels = 3, batch_size = 20, patch_size = 32, task = 3, centered = True\<rparr>" "sconst 0"]
  by (simp add: CLASSIFICATION_TASK_def KINECT_COMPLETION_TASK_def HALF_COMPLETION_TASK_def)

section \<open>The scan\<close>

text \<open>
  The module never imports \<^verbatim>\<open>itertools\<close>, so the first sample of any non-empty batch
  raises NameError before a single column is scanned.
\<close>

lemma kinect_scan_raises:
  assumes "0 < batch_size cfg"
  shows "kinect_scan cfg v = Inl NameError"
proof -
  have "[0..batch_size cfg - 1] = 0 # [0 + 1..batch_size cfg - 1]"
    using assms by (intro upto_first) simp
  then show ?thesis
    by (simp add: kinect_scan_def kinect_scan_in_def global_name_def module_globals_def)
qed

text \<open>
  C2 (the code at a failing input): on one \<open>8 \<times> 8 \<times> 8\<close> sample whose column
  \<open>(x, y) = (2, 2)\<close> is occupied at \<open>z = 3\<close> and \<open>z = 5\<close>, the scan should return the
  grid with only \<open>z = 3\<close> occupied in that column; \<^verbatim>\<open>__kinect_scan\<close> raises NameError.
\<close>

theorem kinect_scan_name_error:
  "kinect_scan \<lparr>num_labels = 3, batch_size = 1, patch_size = 8, task = 1, centered = True\<rparr>
     \<lparr>shape = [1, 8, 1, 8, 8], elems = (\<lambda>idx. idx = [0, 3, 0, 2, 2] \<or> idx = [0, 5, 0, 2, 2])\<rparr>
   = Inl NameError"
  by (rule kinect_scan_raises) simp

text \<open>
  C10 (the code at a failing input): on a batch of two samples that each hold one
  occupied voxel, which a scan should leave unchanged, scanning and then scanning the
  result raises NameError in the first scan.
\<close>

theorem kinect_scan_twice_name_error:
  "and_then
     (kinect_scan \<lparr>num_labels = 3, batch_size = 2, patch_size = 8, task = 1, centered = False\<rparr>
        \<lparr>shape = [2, 8, 1, 8, 8], elems = (\<lambda>idx. idx = [0, 1, 0, 4, 4] \<or> idx = [1, 6, 0, 0, 7])\<rparr>)
     (kinect_scan \<lparr>num_labels = 3, batch_size = 2, patch_size = 8, task = 1, centered = False\<rparr>)
   = Inl NameError"
  by (simp add: kinect_scan_raises)

section \<open>Rotation and recentering\<close>

lemma length_np_nonzero: "length (np_nonzero a) = length (shape a)"
  by (simp add: np_nonzero_def Let_def)

lemma sample_view_shape: "sample_view a n c = Inr v \<Longrightarrow> length (shape v) = 3"
  by (auto simp: sample_view_def split: option.splits sum.splits prod.splits)

text \<open>
  \<^verbatim>\<open>numpy.nonzero\<close> returns a tuple, and \<^verbatim>\<open>rotate_3d\<close> subscripts it with the list
  \<^verbatim>\<open>[3, 4, 1]\<close>: every sample raises, whatever the input and the matrix.
\<close>

lemma rotate_sample_raises: "\<exists>e. rotate_sample a m n out = Inl e"
  by (simp add: rotate_sample_def tuple_getitem_list_def split: sum.splits)

lemma rotate_3d_raises:
  assumes "shape a = B # sh" and "0 < B"
  shows "\<exists>e. rotate_3d a m = Inl e"
proof -
  have "[0..int B - 1] = 0 # [0 + 1..int B - 1]"
    using assms by (intro upto_first) simp
  moreover obtain e where "rotate_sample a m 0 \<lparr>shape = shape a, elems = (\<lambda>_. False)\<rparr> = Inl e"
    using rotate_sample_raises by blast
  ultimately show ?thesis
    using assms by (simp add: rotate_3d_def tuple_getitem_def py_index_def)
qed

text \<open>
  C5 (the code at a failing input): the \<open>1 \<times> 1 \<times> 1 \<times> 1 \<times> 1\<close> grid whose only voxel is
  occupied, rotated by the identity matrix, should come back unchanged (the voxel
  \<open>(0, 0, 0)\<close> maps to itself, within bounds); \<^verbatim>\<open>rotate_3d\<close> raises TypeError.
\<close>

theorem rotate_3d_type_error:
  "rotate_3d \<lparr>shape = [1, 1, 1, 1, 1], elems = (\<lambda>idx. idx = [0, 0, 0, 0, 0])\<rparr>
     [[1, 0, 0], [0, 1, 0], [0, 0, 1]] = Inl TypeError"
  by (simp add: rotate_3d_def tuple_getitem_def py_index_def upto_first rotate_sample_def
      sample_view_def tuple_getitem_list_def)

text \<open>
  The tuple that \<^verbatim>\<open>numpy.nonzero\<close> returns for the three-dimensional view of a sample
  has three entries, and \<^verbatim>\<open>bounding_box_re_center_3d\<close> reads the entries 3 and 4 of
  it: every sample raises.
\<close>

lemma mid_of_3_raises: "length nz = 3 \<Longrightarrow> mid_of nz 3 = Inl IndexError"
  by (simp add: mid_of_def tuple_getitem_def py_index_def)

lemma re_center_sample_raises: "\<exists>e. re_center_sample a mid n out = Inl e"
proof (cases "sample_view a n 0")
  case (Inl e)
  then show ?thesis by (simp add: re_center_sample_def)
next
  case (Inr v)
  then have "mid_of (np_nonzero v) 3 = Inl IndexError"
    by (intro mid_of_3_raises) (simp add: length_np_nonzero sample_view_shape)
  then show ?thesis
    using Inr by (cases "mid_of (np_nonzero v) 1") (simp_all add: re_center_sample_def)
qed

lemma bounding_box_re_center_3d_raises:
  assumes "shape a = B # Z # sh" and "0 < B"
  shows "\<exists>e. bounding_box_re_center_3d a = Inl e"
proof -
  have "[0..int B - 1] = 0 # [0 + 1..int B - 1]"
    using assms by (intro upto_first) simp
  moreover obtain e where
    "re_center_sample a ((int Z - 1) div 2) 0 \<lparr>shape = shape a, elems = (\<lambda>_. False)\<rparr> = Inl e"
    using re_center_sample_raises by blast
  ultimately show ?thesis
    using assms by (simp add: bounding_box_re_center_3d_def tuple_getitem_def py_index_def)
qed

text \<open>
  C6 (the code at a failing input): the \<open>1 \<times> 1 \<times> 1 \<times> 1 \<times> 1\<close> grid whose only voxel is
  occupied is already centred, so recentering it once or twice should return it;
  the first call of \<^verbatim>\<open>bounding_box_re_center_3d\<close> raises IndexError.
\<close>

theorem re_center_index_error:
  "bounding_box_re_center_3d \<lparr>shape = [1, 1, 1, 1, 1], elems = (\<lambda>idx. idx = [0, 0, 0, 0, 0])\<rparr>
     = Inl IndexError"
  by (simp add: bounding_box_re_center_3d_def tuple_getitem_def py_index_def upto_first
      re_center_sample_def sample_view_def np_nonzero_def mid_of_def py_min_def py_max_def)

end
